theory Spec2Isabelle
  imports Main "HOL-Library.Sublist"
begin

section \<open>The configuration package of emits: entity model\<close>

text \<open>
  The development follows the revision of package \<^verbatim>\<open>configuration\<close> whose entities are
  held by pointer (\<^verbatim>\<open>[]*Task\<close>, \<^verbatim>\<open>*Path\<close>, \<^verbatim>\<open>*Parse\<close>, ...) and whose validation is split
  into \<^verbatim>\<open>Configuration.Validate\<close>, \<^verbatim>\<open>Task.Validate\<close>, \<^verbatim>\<open>File.Validate\<close>,
  \<^verbatim>\<open>Parse.Validate\<close> and \<^verbatim>\<open>Script.Validate\<close>.

  \<^item> A Go \<^verbatim>\<open>string\<close> is a byte sequence: \<^typ>\<open>string\<close>.
  \<^item> A pointer to a struct that the code tests against \<^verbatim>\<open>nil\<close> (\<^verbatim>\<open>*Path\<close>, \<^verbatim>\<open>*Parse\<close>,
    \<^verbatim>\<open>*core.Comment\<close>, \<^verbatim>\<open>*core.CommentBlock\<close>, \<^verbatim>\<open>*Modify\<close>) is an \<^typ>\<open>'a option\<close>,
    \<^term>\<open>None\<close> for \<^verbatim>\<open>nil\<close>.
  \<^item> A slice is a list. \<^verbatim>\<open>Path.Include\<close> is the one slice the code compares with \<^verbatim>\<open>nil\<close>
    where \<^verbatim>\<open>nil\<close> and the empty slice differ in effect, so it is a \<^typ>\<open>string list option\<close>;
    for every other slice the code only takes \<^verbatim>\<open>len\<close> or ranges over it, which does not
    tell \<^verbatim>\<open>nil\<close> from empty.
  \<^item> The entries of \<^verbatim>\<open>[]*Task\<close>, \<^verbatim>\<open>[]*Script\<close>, \<^verbatim>\<open>[]*File\<close>, \<^verbatim>\<open>[]*Plugin\<close> and
    \<^verbatim>\<open>[]*core.RegularExpression\<close> are modelled by value: the model covers slices whose
    entries are non-nil and pairwise distinct objects. The methods dereference every
    entry without a \<^verbatim>\<open>nil\<close> test.
  \<^item> A method that assigns to a field of its receiver returns the updated entity.
\<close>

text \<open>
  Modelled from the spec: \<^verbatim>\<open>core.CommentBlock\<close>, \<^verbatim>\<open>core.Comment\<close> and
  \<^verbatim>\<open>core.RegularExpression\<close> are declared in package \<^verbatim>\<open>github.com/emits-io/core\<close>. The
  comment definition is a line marker (a string) and an optional block marker, a pair of
  start and end strings; a regular expression is a find/replace pair of strings.
\<close>

record CommentBlock =
  CommentBlock_Start :: string
  CommentBlock_End :: string

record Comment =
  Comment_Line :: string
  Comment_Block :: "CommentBlock option"

record RegularExpression =
  RegularExpression_Find :: string
  RegularExpression_Replace :: string

record Plugin =
  Plugin_Path :: string

record Parse =
  Parse_Comment :: "Comment option"
  Parse_Source :: bool

record Modify =
  Modify_Plugin :: "Plugin list"
  Modify_Regex :: "RegularExpression list"

record File =
  File_Type :: "string list"
  File_Parse :: "Parse option"
  File_Modify :: "Modify option"

record Path =
  Path_Include :: "string list option"
  Path_Exclude :: "string list"

record Task =
  Task_Name :: string
  Task_Path :: "Path option"

record Script =
  Script_Name :: string
  Script_Task :: "string list"

record Configuration =
  Configuration_Name :: string
  Configuration_Description :: string
  Configuration_Author :: string
  Configuration_License :: string
  Configuration_Version :: string
  Configuration_Task :: "Task list"
  Configuration_Script :: "Script list"
  Configuration_File :: "File list"

definition ConfigFile :: string where
  "ConfigFile = ''emits.json''"

section \<open>Library functions the package calls\<close>

text \<open>
  \<^verbatim>\<open>strings.Join(elems, sep)\<close>.
\<close>

fun Join :: "string list \<Rightarrow> string \<Rightarrow> string" where
  "Join [] sep = []"
| "Join [s] sep = s"
| "Join (s # t # ss) sep = s @ sep @ Join (t # ss) sep"

text \<open>
  \<^verbatim>\<open>strings.TrimSpace\<close> removes leading and trailing white space, as defined by Unicode,
  from a UTF-8 string. \<open>spaceRunes\<close> lists the UTF-8 encodings of the runes for which
  \<^verbatim>\<open>unicode.IsSpace\<close> holds: U+0009 to U+000D, U+0020, U+0085, U+00A0, U+1680,
  U+2000 to U+200A, U+2028, U+2029, U+202F, U+205F and U+3000. A byte sequence that is not
  the encoding of one of them decodes to another rune or to \<^verbatim>\<open>utf8.RuneError\<close>, neither of
  which is white space.
\<close>

definition spaceRunes :: "nat list list" where
  "spaceRunes =
     [[9], [10], [11], [12], [13], [32], [194, 133], [194, 160], [225, 154, 128],
      [226, 128, 128], [226, 128, 129], [226, 128, 130], [226, 128, 131],
      [226, 128, 132], [226, 128, 133], [226, 128, 134], [226, 128, 135],
      [226, 128, 136], [226, 128, 137], [226, 128, 138],
      [226, 128, 168], [226, 128, 169], [226, 128, 175], [226, 129, 159],
      [227, 128, 128]]"

function trimRunes :: "nat list list \<Rightarrow> nat list \<Rightarrow> nat list" where
  "trimRunes ps bs =
     (case find (\<lambda>p. p \<noteq> [] \<and> prefix p bs) ps of
        Some p \<Rightarrow> trimRunes ps (drop (length p) bs)
      | None \<Rightarrow> bs)"
  by pat_completeness auto
termination
proof (relation "measure (\<lambda>(ps, bs). length bs)")
  show "wf (measure (\<lambda>(ps, bs). length bs))" by simp
next
  fix ps :: "nat list list" and bs p :: "nat list"
  assume "find (\<lambda>p. p \<noteq> [] \<and> prefix p bs) ps = Some p"
  then have "p \<noteq> []" and "prefix p bs" by (auto simp: find_Some_iff)
  then have "bs \<noteq> []" by auto
  with \<open>p \<noteq> []\<close> show "((ps, drop (length p) bs), (ps, bs)) \<in> measure (\<lambda>(ps, bs). length bs)"
    by simp
qed

declare trimRunes.simps [simp del]

text \<open>
  The result is given as its bytes; the package only takes its length.
\<close>

definition TrimSpace :: "string \<Rightarrow> nat list" where
  "TrimSpace s = rev (trimRunes (map rev spaceRunes) (rev (trimRunes spaceRunes (map of_char s))))"

text \<open>
  \<^verbatim>\<open>fmt.Sprintf("%v", p)\<close> for a pointer \<open>p\<close> to a pointer: \<^verbatim>\<open>fmt\<close> prints the address, in
  lower-case hexadecimal after \<^verbatim>\<open>0x\<close>, and \<^verbatim>\<open><nil>\<close> for the address 0. An address is a
  natural number.
\<close>

fun hexDigits :: "nat \<Rightarrow> string" where
  "hexDigits n =
     (if n < 16 then [''0123456789abcdef'' ! n]
      else hexDigits (n div 16) @ [''0123456789abcdef'' ! (n mod 16)])"

declare hexDigits.simps [simp del]

definition Sprintf_pointer :: "nat \<Rightarrow> string" where
  "Sprintf_pointer u = (if u = 0 then ''<nil>'' else ''0x'' @ hexDigits u)"

text \<open>
  \<^verbatim>\<open>%v\<close> of an \<^verbatim>\<open>int\<close> loop index: decimal digits.
\<close>

fun Sprintf_int :: "nat \<Rightarrow> string" where
  "Sprintf_int n =
     (if n < 10 then [''0123456789'' ! n]
      else Sprintf_int (n div 10) @ [''0123456789'' ! (n mod 10)])"

declare Sprintf_int.simps [simp del]

section \<open>Validation errors\<close>

text \<open>
  Every \<^verbatim>\<open>fmt.Errorf\<close> call site of the package is one constructor, carrying the values
  that are formatted into the message; \<open>message\<close> gives the text of the error.
\<close>

datatype verror =
    MissingTaskDefinition
  | MissingFileDefinition
  | FileMissingType string
  | FileMissingParse string
  | FileMissingParseComment string
  | FileMissingBlockStart string
  | FileMissingBlockEnd string
  | FilePluginPathEmpty string nat
  | FileFindEmpty string nat
  | TaskMissingName string
  | TaskMissingPathInclude string
  | TaskIncludeEmpty string nat
  | TaskExcludeEmpty string nat
  | TaskMissingPath string
  | ScriptMissingName string
  | ScriptMissingTask string
  | ScriptDuplicateTask string string
  | ScriptUnknownTask string string

fun message :: "verror \<Rightarrow> string" where
  "message MissingTaskDefinition =
     ''`'' @ ConfigFile @ ''` must contain at least one task definition''"
| "message MissingFileDefinition =
     ''`'' @ ConfigFile @ ''` must contain at least one file definition''"
| "message (FileMissingType ty) = ''`'' @ ty @ ''` file missing type definition''"
| "message (FileMissingParse ty) = ''file `'' @ ty @ ''` type missing parse definition''"
| "message (FileMissingParseComment ty) =
     ''file `'' @ ty @ ''` type missing parse comment definition''"
| "message (FileMissingBlockStart ty) =
     ''file `'' @ ty @ ''` type missing parse block comment start definition''"
| "message (FileMissingBlockEnd ty) =
     ''file `'' @ ty @ ''` type missing parse block comment end definition''"
| "message (FilePluginPathEmpty ty i) =
     ''`'' @ ty @ ''` file modify plugin path definition at index `'' @ Sprintf_int i
       @ ''` is empty''"
| "message (FileFindEmpty ty i) =
     ''`'' @ ty @ ''` file modify find definition at index `'' @ Sprintf_int i @ ''` is empty''"
| "message (TaskMissingName n) = ''`'' @ n @ ''` task missing name definition''"
| "message (TaskMissingPathInclude n) = ''`'' @ n @ ''` task missing path include definition''"
| "message (TaskIncludeEmpty n i) =
     ''`'' @ n @ ''` task path include definition at index `'' @ Sprintf_int i @ ''` is empty''"
| "message (TaskExcludeEmpty n i) =
     ''`'' @ n @ ''` task path exclude definition at index `'' @ Sprintf_int i @ ''` is empty''"
| "message (TaskMissingPath n) = ''`'' @ n @ ''` task missing path definition''"
| "message (ScriptMissingName n) = ''`'' @ n @ ''` script missing name definition''"
| "message (ScriptMissingTask n) =
     ''`'' @ n @ ''` script must contain at least one task definition''"
| "message (ScriptDuplicateTask n t) =
     ''`'' @ n @ ''` script referencing duplicate `'' @ t @ ''` task definition''"
| "message (ScriptUnknownTask n t) =
     ''`'' @ n @ ''` script referencing unknown `'' @ t @ ''` task definition''"

section \<open>Lookup services\<close>

text \<open>
  \<^verbatim>\<open>FindTask\<close> and \<^verbatim>\<open>FindScript\<close> range over the slice and return the first entry whose
  name equals the argument, \<^verbatim>\<open>nil\<close> (\<^term>\<open>None\<close>) after the loop.
\<close>

fun FindTask_loop :: "Task list \<Rightarrow> string \<Rightarrow> Task option" where
  "FindTask_loop [] name = None"
| "FindTask_loop (t # ts) name = (if Task_Name t = name then Some t else FindTask_loop ts name)"

definition FindTask :: "Configuration \<Rightarrow> string \<Rightarrow> Task option" where
  "FindTask c name = FindTask_loop (Configuration_Task c) name"

fun FindScript_loop :: "Script list \<Rightarrow> string \<Rightarrow> Script option" where
  "FindScript_loop [] name = None"
| "FindScript_loop (s # ss) name =
     (if Script_Name s = name then Some s else FindScript_loop ss name)"

definition FindScript :: "Configuration \<Rightarrow> string \<Rightarrow> Script option" where
  "FindScript c name = FindScript_loop (Configuration_Script c) name"

section \<open>Validation\<close>

definition ValidateTaskDefinitionExists :: "Configuration \<Rightarrow> verror option" where
  "ValidateTaskDefinitionExists c =
     (if length (Configuration_Task c) = 0 then Some MissingTaskDefinition else None)"

definition ValidateFileDefinitionExists :: "Configuration \<Rightarrow> verror option" where
  "ValidateFileDefinitionExists c =
     (if length (Configuration_File c) = 0 then Some MissingFileDefinition else None)"

subsection \<open>Parse.Validate\<close>

text \<open>
  The receiver may be \<^verbatim>\<open>nil\<close>: \<^verbatim>\<open>File.Validate\<close> calls \<^verbatim>\<open>f.Parse.Validate(f)\<close> without a test.
\<close>

definition Parse_Validate :: "Parse option \<Rightarrow> File \<Rightarrow> verror list" where
  "Parse_Validate p f =
     (case p of
        None \<Rightarrow> [FileMissingParse (Join (File_Type f) '','')]
      | Some p' \<Rightarrow>
          (case Parse_Comment p' of
             None \<Rightarrow> [FileMissingParseComment (Join (File_Type f) '','')]
           | Some cm \<Rightarrow>
               if length (Comment_Line cm) = 0 \<and> Comment_Block cm = None
               then [FileMissingParseComment (Join (File_Type f) '','')]
               else (case Comment_Block cm of
                       None \<Rightarrow> []
                     | Some b \<Rightarrow>
                         (if length (CommentBlock_Start b) = 0
                          then [FileMissingBlockStart (Join (File_Type f) '','')] else [])
                         @ (if length (CommentBlock_End b) = 0
                            then [FileMissingBlockEnd (Join (File_Type f) '','')] else []))))"

subsection \<open>File.Validate\<close>

text \<open>
  The two loops over \<^verbatim>\<open>f.Modify.Plugin\<close> and \<^verbatim>\<open>f.Modify.Regex\<close>, with the loop index.
\<close>

fun File_Validate_plugin :: "string \<Rightarrow> nat \<Rightarrow> Plugin list \<Rightarrow> verror list" where
  "File_Validate_plugin ty i [] = []"
| "File_Validate_plugin ty i (plugin # ps) =
     (if length (Plugin_Path plugin) = 0 then [FilePluginPathEmpty ty i] else [])
     @ File_Validate_plugin ty (Suc i) ps"

fun File_Validate_regex :: "string \<Rightarrow> nat \<Rightarrow> RegularExpression list \<Rightarrow> verror list" where
  "File_Validate_regex ty i [] = []"
| "File_Validate_regex ty i (regex # rs) =
     (if length (RegularExpression_Find regex) = 0 then [FileFindEmpty ty i] else [])
     @ File_Validate_regex ty (Suc i) rs"

text \<open>
  \<open>addr\<close> is the address of the receiver variable \<^verbatim>\<open>f\<close>, which \<^verbatim>\<open>fmt.Sprintf("%v", &f)\<close>
  prints as the placeholder type of a file without types.
\<close>

definition File_Validate :: "nat \<Rightarrow> File \<Rightarrow> File \<times> verror list" where
  "File_Validate addr f =
     (let f1 = (if length (File_Type f) = 0
                then f\<lparr>File_Type := [Sprintf_pointer addr]\<rparr> else f);
          errors1 = (if length (File_Type f) = 0
                     then [FileMissingType (Join (File_Type f1) '','')] else []);
          errParseDefinition = Parse_Validate (File_Parse f1) f1;
          errors2 = (case File_Modify f1 of
                       None \<Rightarrow> []
                     | Some m \<Rightarrow>
                         File_Validate_plugin (Join (File_Type f1) '','') 0 (Modify_Plugin m)
                         @ File_Validate_regex (Join (File_Type f1) '','') 0 (Modify_Regex m))
      in (f1, errors1 @ errParseDefinition @ errors2))"

subsection \<open>Task.Validate\<close>

fun Task_Validate_include :: "string \<Rightarrow> nat \<Rightarrow> string list \<Rightarrow> verror list" where
  "Task_Validate_include n i [] = []"
| "Task_Validate_include n i (include # xs) =
     (if length (TrimSpace include) = 0 then [TaskIncludeEmpty n i] else [])
     @ Task_Validate_include n (Suc i) xs"

fun Task_Validate_exclude :: "string \<Rightarrow> nat \<Rightarrow> string list \<Rightarrow> verror list" where
  "Task_Validate_exclude n i [] = []"
| "Task_Validate_exclude n i (exclude # xs) =
     (if length (TrimSpace exclude) = 0 then [TaskExcludeEmpty n i] else [])
     @ Task_Validate_exclude n (Suc i) xs"

text \<open>
  \<open>addr\<close> is the address of the receiver variable \<^verbatim>\<open>t\<close>. Ranging over the \<^verbatim>\<open>nil\<close>
  \<^verbatim>\<open>Include\<close> slice runs no iteration.
\<close>

definition Task_Validate :: "nat \<Rightarrow> Task \<Rightarrow> Task \<times> verror list" where
  "Task_Validate addr t =
     (let t1 = (if length (Task_Name t) = 0 then t\<lparr>Task_Name := Sprintf_pointer addr\<rparr> else t);
          errors1 = (if length (Task_Name t) = 0 then [TaskMissingName (Task_Name t1)] else []);
          errors2 = (case Task_Path t1 of
                       Some p \<Rightarrow>
                         (if Path_Include p = None
                          then [TaskMissingPathInclude (Task_Name t1)] else [])
                         @ Task_Validate_include (Task_Name t1) 0
                             (case Path_Include p of None \<Rightarrow> [] | Some xs \<Rightarrow> xs)
                         @ Task_Validate_exclude (Task_Name t1) 0 (Path_Exclude p)
                     | None \<Rightarrow> [TaskMissingPath (Task_Name t1)])
      in (t1, errors1 @ errors2))"

subsection \<open>Script.Validate\<close>

text \<open>
  The inner loop over \<^verbatim>\<open>seenTask\<close>, which breaks at the first equal entry.
\<close>

fun Script_Validate_seen :: "string list \<Rightarrow> string \<Rightarrow> bool" where
  "Script_Validate_seen [] task = False"
| "Script_Validate_seen (seen # rest) task =
     (if seen = task then True else Script_Validate_seen rest task)"

text \<open>
  The loop over \<^verbatim>\<open>s.Task\<close>; \<open>seenTask\<close> is the loop's local slice.
\<close>

fun Script_Validate_task :: "Configuration \<Rightarrow> string \<Rightarrow> string list \<Rightarrow> string list \<Rightarrow> verror list"
  where
  "Script_Validate_task c n seenTask [] = []"
| "Script_Validate_task c n seenTask (task # rest) =
     (let taskSeen = Script_Validate_seen seenTask task;
          errors1 = (if taskSeen then [ScriptDuplicateTask n task] else []);
          seenTask' = (if taskSeen then seenTask else seenTask @ [task]);
          errors2 = (if FindTask c task = None then [ScriptUnknownTask n task] else [])
      in errors1 @ errors2 @ Script_Validate_task c n seenTask' rest)"

definition Script_Validate :: "nat \<Rightarrow> Configuration \<Rightarrow> Script \<Rightarrow> Script \<times> verror list" where
  "Script_Validate addr c s =
     (let s1 = (if length (Script_Name s) = 0
                then s\<lparr>Script_Name := Sprintf_pointer addr\<rparr> else s);
          errors1 = (if length (Script_Name s) = 0
                     then [ScriptMissingName (Script_Name s1)] else []);
          errors2 = (if length (Script_Task s1) = 0
                     then [ScriptMissingTask (Script_Name s1)]
                     else Script_Validate_task c (Script_Name s1) [] (Script_Task s1))
      in (s1, errors1 @ errors2))"

subsection \<open>Configuration.Validate\<close>

text \<open>
  The three loops of \<^verbatim>\<open>Configuration.Validate\<close>. \<open>alloc k\<close> is the address of the receiver
  variable in the \<open>k\<close>-th call of an entity's \<^verbatim>\<open>Validate\<close> method during the run; the
  runtime chooses it, so every statement below holds for every \<open>alloc\<close>. The entities are
  updated in place, so the loop over the scripts reads the task names that the loop over
  the tasks has left.
\<close>

fun Validate_tasks :: "(nat \<Rightarrow> nat) \<Rightarrow> nat \<Rightarrow> Task list \<Rightarrow> Task list \<times> verror list" where
  "Validate_tasks alloc k [] = ([], [])"
| "Validate_tasks alloc k (task # ts) =
     (let (task', errTaskDefinition) = Task_Validate (alloc k) task;
          (ts', errors) = Validate_tasks alloc (Suc k) ts
      in (task' # ts', errTaskDefinition @ errors))"

fun Validate_files :: "(nat \<Rightarrow> nat) \<Rightarrow> nat \<Rightarrow> File list \<Rightarrow> File list \<times> verror list" where
  "Validate_files alloc k [] = ([], [])"
| "Validate_files alloc k (file # fs) =
     (let (file', errFileDefinition) = File_Validate (alloc k) file;
          (fs', errors) = Validate_files alloc (Suc k) fs
      in (file' # fs', errFileDefinition @ errors))"

fun Validate_scripts ::
  "(nat \<Rightarrow> nat) \<Rightarrow> nat \<Rightarrow> Configuration \<Rightarrow> Script list \<Rightarrow> Script list \<times> verror list" where
  "Validate_scripts alloc k c [] = ([], [])"
| "Validate_scripts alloc k c (script # ss) =
     (let (script', errScriptDefinition) = Script_Validate (alloc k) c script;
          (ss', errors) = Validate_scripts alloc (Suc k) c ss
      in (script' # ss', errScriptDefinition @ errors))"

definition Configuration_Validate ::
  "(nat \<Rightarrow> nat) \<Rightarrow> Configuration \<Rightarrow> Configuration \<times> verror list" where
  "Configuration_Validate alloc c =
     (let errors0 = (case ValidateTaskDefinitionExists c of Some err \<Rightarrow> [err] | None \<Rightarrow> [])
                    @ (case ValidateFileDefinitionExists c of Some err \<Rightarrow> [err] | None \<Rightarrow> []);
          (tasks, errorsT) = Validate_tasks alloc 0 (Configuration_Task c);
          c1 = c\<lparr>Configuration_Task := tasks\<rparr>;
          (files, errorsF) = Validate_files alloc (length tasks) (Configuration_File c1);
          c2 = c1\<lparr>Configuration_File := files\<rparr>;
          (scripts, errorsS) =
             Validate_scripts alloc (length tasks + length files) c2 (Configuration_Script c2);
          c3 = c2\<lparr>Configuration_Script := scripts\<rparr>
      in (c3, errors0 @ errorsT @ errorsF @ errorsS))"

section \<open>Document input\<close>

text \<open>
  \<^verbatim>\<open>Load\<close> calls \<^verbatim>\<open>os.Open\<close>, \<^verbatim>\<open>ioutil.ReadAll\<close> and \<^verbatim>\<open>json.Unmarshal\<close>, which are not
  part of the package: they are parameters, each returning its results with an optional
  error (\<^term>\<open>None\<close> for \<^verbatim>\<open>nil\<close>). \<^verbatim>\<open>json.Unmarshal\<close> fills the instance it is given and
  returns an error for a document that is not well-formed. \<^verbatim>\<open>Load\<close> has one variable
  \<^verbatim>\<open>err\<close>, assigned by \<^verbatim>\<open>os.Open\<close> and then by \<^verbatim>\<open>ioutil.ReadAll\<close>; the result of
  \<^verbatim>\<open>json.Unmarshal\<close> is compared with \<^verbatim>\<open>nil\<close> and not assigned.
\<close>

type_synonym goerror = string

definition Load ::
  "(string \<Rightarrow> goerror + 'file) \<Rightarrow> ('file \<Rightarrow> string \<times> goerror option) \<Rightarrow>
   (string \<Rightarrow> Configuration \<Rightarrow> Configuration \<times> goerror option) \<Rightarrow>
   Configuration \<Rightarrow> Configuration \<times> goerror option" where
  "Load os_Open ioutil_ReadAll json_Unmarshal c =
     (case os_Open ConfigFile of
        Inl err \<Rightarrow> (c, Some err)
      | Inr jsonFile \<Rightarrow>
          (case ioutil_ReadAll jsonFile of
             (byteValue, err) \<Rightarrow>
               if err \<noteq> None then (c, err)
               else (case json_Unmarshal byteValue c of
                       (c', unmarshalErr) \<Rightarrow>
                         if unmarshalErr \<noteq> None then (c', err) else (c', None))))"

section \<open>Specification-level definitions\<close>

text \<open>
  The errors that report a missing identifier: the name of a task or of a script, the
  types of a file. They are the errors raised where a placeholder is assigned.
\<close>

fun missing_identifier :: "verror \<Rightarrow> bool" where
  "missing_identifier (TaskMissingName n) = True"
| "missing_identifier (ScriptMissingName n) = True"
| "missing_identifier (FileMissingType ty) = True"
| "missing_identifier e = False"

definition named :: "verror list \<Rightarrow> verror list" where
  "named errors = filter (\<lambda>e. \<not> missing_identifier e) errors"

text \<open>
  The errors of the reference at position \<open>i\<close> of a script's reference list, in the words
  of the specification: a duplicate error when the reference equals an earlier one of the
  same list, and, independently, an unknown error when it does not resolve.
\<close>

definition Script_reference_error ::
  "Configuration \<Rightarrow> string \<Rightarrow> string list \<Rightarrow> nat \<Rightarrow> verror list" where
  "Script_reference_error c n refs i =
     (if refs ! i \<in> set (take i refs) then [ScriptDuplicateTask n (refs ! i)] else [])
     @ (if FindTask c (refs ! i) = None then [ScriptUnknownTask n (refs ! i)] else [])"

definition Script_reference_errors :: "Configuration \<Rightarrow> string \<Rightarrow> string list \<Rightarrow> verror list"
  where
  "Script_reference_errors c n refs =
     concat (map (Script_reference_error c n refs) [0..<length refs])"

text \<open>
  What validation may change: the name of a task or script whose name was empty, the
  types of a file that had none. Everything else is the same, position by position.
\<close>

definition Task_frame :: "Task \<Rightarrow> Task \<Rightarrow> bool" where
  "Task_frame t t' \<longleftrightarrow>
     Task_Path t' = Task_Path t \<and> (Task_Name t \<noteq> [] \<longrightarrow> Task_Name t' = Task_Name t)"

definition Script_frame :: "Script \<Rightarrow> Script \<Rightarrow> bool" where
  "Script_frame s s' \<longleftrightarrow>
     Script_Task s' = Script_Task s \<and> (Script_Name s \<noteq> [] \<longrightarrow> Script_Name s' = Script_Name s)"

definition File_frame :: "File \<Rightarrow> File \<Rightarrow> bool" where
  "File_frame f f' \<longleftrightarrow>
     File_Parse f' = File_Parse f \<and> File_Modify f' = File_Modify f
     \<and> (File_Type f \<noteq> [] \<longrightarrow> File_Type f' = File_Type f)"

definition Configuration_frame :: "Configuration \<Rightarrow> Configuration \<Rightarrow> bool" where
  "Configuration_frame c c' \<longleftrightarrow>
     Configuration_Name c' = Configuration_Name c
     \<and> Configuration_Description c' = Configuration_Description c
     \<and> Configuration_Author c' = Configuration_Author c
     \<and> Configuration_License c' = Configuration_License c
     \<and> Configuration_Version c' = Configuration_Version c
     \<and> list_all2 Task_frame (Configuration_Task c) (Configuration_Task c')
     \<and> list_all2 Script_frame (Configuration_Script c) (Configuration_Script c')
     \<and> list_all2 File_frame (Configuration_File c) (Configuration_File c')"

section \<open>Example documents\<close>

text \<open>
  An allocator that places the receiver variables at \<^verbatim>\<open>0xc000000000\<close>, eight bytes apart.
\<close>

definition heap0 :: "nat \<Rightarrow> nat" where
  "heap0 k = 824633720832 + 8 * k"

definition file_go :: File where
  "file_go = \<lparr>File_Type = [''go''],
       File_Parse = Some \<lparr>Parse_Comment = Some \<lparr>Comment_Line = ''//'', Comment_Block = None\<rparr>,
                           Parse_Source = False\<rparr>,
       File_Modify = None\<rparr>"

text \<open>
  One anonymous task with an include pattern, one file, no script.
\<close>

definition cfg1 :: Configuration where
  "cfg1 = \<lparr>Configuration_Name = [], Configuration_Description = [], Configuration_Author = [],
     Configuration_License = [], Configuration_Version = [],
     Configuration_Task =
       [\<lparr>Task_Name = [], Task_Path = Some \<lparr>Path_Include = Some [''*''], Path_Exclude = []\<rparr>\<rparr>],
     Configuration_Script = [],
     Configuration_File = [file_go]\<rparr>"

text \<open>
  A task named \<^verbatim>\<open>a\<close>, and two scripts to validate against it.
\<close>

definition cfg3 :: Configuration where
  "cfg3 = \<lparr>Configuration_Name = [], Configuration_Description = [], Configuration_Author = [],
     Configuration_License = [], Configuration_Version = [],
     Configuration_Task = [\<lparr>Task_Name = ''a'', Task_Path = None\<rparr>],
     Configuration_Script = [], Configuration_File = []\<rparr>"

definition script_aa :: Script where
  "script_aa = \<lparr>Script_Name = ''s'', Script_Task = [''a'', ''a'']\<rparr>"

definition script_xax :: Script where
  "script_xax = \<lparr>Script_Name = ''s'', Script_Task = [''x'', ''a'', ''x'']\<rparr>"

text \<open>
  A file whose block comment has a start and no end.
\<close>

definition block_start_only :: CommentBlock where
  "block_start_only = \<lparr>CommentBlock_Start = ''/*'', CommentBlock_End = []\<rparr>"

definition comment_start_only :: Comment where
  "comment_start_only = \<lparr>Comment_Line = [], Comment_Block = Some block_start_only\<rparr>"

definition parse_start_only :: Parse where
  "parse_start_only = \<lparr>Parse_Comment = Some comment_start_only, Parse_Source = False\<rparr>"

definition file_start_only :: File where
  "file_start_only = \<lparr>File_Type = [''go'', ''c''], File_Parse = Some parse_start_only,
     File_Modify = None\<rparr>"

text \<open>
  A comment definition with the line marker \<^verbatim>\<open>//\<close> and a block marker that is present with
  neither start nor end: \<^verbatim>\<open>Comment{Line: "//", Block: &CommentBlock{}}\<close>, or
  \<^verbatim>\<open>{"line": "//", "block": {}}\<close> in the document.
\<close>

definition block_empty :: CommentBlock where
  "block_empty = \<lparr>CommentBlock_Start = [], CommentBlock_End = []\<rparr>"

definition comment_line_empty_block :: Comment where
  "comment_line_empty_block = \<lparr>Comment_Line = ''//'', Comment_Block = Some block_empty\<rparr>"

definition parse_line_empty_block :: Parse where
  "parse_line_empty_block
     = \<lparr>Parse_Comment = Some comment_line_empty_block, Parse_Source = False\<rparr>"


text \<open>
  One task \<^verbatim>\<open>t\<close> including \<^verbatim>\<open>*\<close>, one file of type \<^verbatim>\<open>go\<close> with the line comment \<^verbatim>\<open>//\<close>, one
  script \<^verbatim>\<open>s\<close> running \<^verbatim>\<open>t\<close>.
\<close>

definition cfg6 :: Configuration where
  "cfg6 = \<lparr>Configuration_Name = [], Configuration_Description = [], Configuration_Author = [],
     Configuration_License = [], Configuration_Version = [],
     Configuration_Task =
       [\<lparr>Task_Name = ''t'', Task_Path = Some \<lparr>Path_Include = Some [''*''], Path_Exclude = []\<rparr>\<rparr>],
     Configuration_Script = [\<lparr>Script_Name = ''s'', Script_Task = [''t'']\<rparr>],
     Configuration_File = [file_go]\<rparr>"

text \<open>
  An anonymous task without path and a task \<^verbatim>\<open>t\<close>, an anonymous file without parse
  definition, an anonymous script that refers to the empty name and to \<^verbatim>\<open>t\<close>; \<open>cfg7'\<close> is
  the document after validation under \<open>heap0\<close>.
\<close>

definition cfg7 :: Configuration where
  "cfg7 = \<lparr>Configuration_Name = ''emits'', Configuration_Description = [],
     Configuration_Author = [], Configuration_License = ''MIT'', Configuration_Version = ''1.0.0'',
     Configuration_Task =
       [\<lparr>Task_Name = [], Task_Path = None\<rparr>,
        \<lparr>Task_Name = ''t'', Task_Path = Some \<lparr>Path_Include = Some [''*''], Path_Exclude = []\<rparr>\<rparr>],
     Configuration_Script = [\<lparr>Script_Name = [], Script_Task = [[], ''t'']\<rparr>],
     Configuration_File = [\<lparr>File_Type = [], File_Parse = None, File_Modify = None\<rparr>]\<rparr>"

definition cfg7' :: Configuration where
  "cfg7' = cfg7\<lparr>
     Configuration_Task :=
       [\<lparr>Task_Name = ''0xc000000000'', Task_Path = None\<rparr>,
        \<lparr>Task_Name = ''t'', Task_Path = Some \<lparr>Path_Include = Some [''*''], Path_Exclude = []\<rparr>\<rparr>],
     Configuration_Script := [\<lparr>Script_Name = ''0xc000000018'', Script_Task = [[], ''t'']\<rparr>],
     Configuration_File := [\<lparr>File_Type = [''0xc000000010''], File_Parse = None, File_Modify = None\<rparr>]\<rparr>"

text \<open>
  Three tasks, two of them named \<^verbatim>\<open>test\<close>, and two scripts named \<^verbatim>\<open>build\<close>.
\<close>

definition cfg9 :: Configuration where
  "cfg9 = \<lparr>Configuration_Name = [], Configuration_Description = [], Configuration_Author = [],
     Configuration_License = [], Configuration_Version = [],
     Configuration_Task =
       [\<lparr>Task_Name = ''Test'', Task_Path = None\<rparr>,
        \<lparr>Task_Name = ''test'', Task_Path = Some \<lparr>Path_Include = Some [''*''], Path_Exclude = []\<rparr>\<rparr>,
        \<lparr>Task_Name = ''test'', Task_Path = None\<rparr>],
     Configuration_Script =
       [\<lparr>Script_Name = ''build'', Script_Task = [''test'']\<rparr>,
        \<lparr>Script_Name = ''build'', Script_Task = []\<rparr>],
     Configuration_File = []\<rparr>"

text \<open>
  A document file that opens and reads without error and holds the single byte \<^verbatim>\<open>{\<close>,
  which is not a well-formed JSON document: \<^verbatim>\<open>json.Unmarshal\<close> returns a syntax error and
  leaves the instance as it was.
\<close>

definition os_Open_ok :: "string \<Rightarrow> goerror + unit" where
  "os_Open_ok name = Inr ()"

definition ReadAll_brace :: "unit \<Rightarrow> string \<times> goerror option" where
  "ReadAll_brace jsonFile = (''{'', None)"

definition Unmarshal_brace :: "string \<Rightarrow> Configuration \<Rightarrow> Configuration \<times> goerror option" where
  "Unmarshal_brace byteValue c =
     (if byteValue = ''{'' then (c, Some ''unexpected end of JSON input'') else (c, None))"

section \<open>Properties\<close>

subsection \<open>Auxiliary facts\<close>

lemma named_Nil: "named [] = []"
  by (simp add: named_def)

lemma named_Cons: "named (e # es) = (if missing_identifier e then named es else e # named es)"
  by (simp add: named_def)

lemma named_append: "named (xs @ ys) = named xs @ named ys"
  by (simp add: named_def)

lemmas named_simps = named_Nil named_Cons named_append

lemma hexDigits_nonempty: "hexDigits n \<noteq> []"
  by (subst hexDigits.simps) simp

lemma Sprintf_pointer_nonempty: "Sprintf_pointer u \<noteq> []"
  by (simp add: Sprintf_pointer_def)

text \<open>
  The library models on small inputs: white space is trimmed on both sides, also the
  two-byte no-break space U+00A0, and inner white space is kept.
\<close>

lemma TrimSpace_examples:
  "TrimSpace [] = []"
  "TrimSpace [CHR 0x20, CHR 0x09, CHR 0xC2, CHR 0xA0] = []"
  "TrimSpace '' a b '' = [97, 32, 98]"
  by code_simp+

lemma message_examples:
  "message (FileMissingBlockEnd ''go,c'')
     = ''file `go,c` type missing parse block comment end definition''"
  "message (ScriptDuplicateTask ''s'' ''a'')
     = ''`s` script referencing duplicate `a` task definition''"
  "message MissingTaskDefinition = ''`emits.json` must contain at least one task definition''"
  by (simp_all add: ConfigFile_def)

subsection \<open>Lookup\<close>

lemma FindTask_loop_find: "FindTask_loop ts name = find (\<lambda>t. Task_Name t = name) ts"
  by (induction ts) simp_all

lemma FindScript_loop_find: "FindScript_loop ss name = find (\<lambda>s. Script_Name s = name) ss"
  by (induction ss) simp_all

text \<open>
  C9: \<^verbatim>\<open>FindTask\<close> returns the first task, in the order of the sequence, whose name equals
  the argument, and \<^verbatim>\<open>nil\<close> exactly when no task has that name; \<^verbatim>\<open>FindScript\<close> does the
  same over the scripts. Names are compared as byte strings, so the comparison is
  case-sensitive. Both functions are total and return an optional entity: not finding one
  is a result, not an error.
\<close>

theorem FindTask_FindScript_first_match:
  "(FindTask c name = None \<longleftrightarrow> (\<forall>t \<in> set (Configuration_Task c). Task_Name t \<noteq> name))
   \<and> (\<forall>t. FindTask c name = Some t \<longleftrightarrow>
         (\<exists>i < length (Configuration_Task c). Configuration_Task c ! i = t \<and> Task_Name t = name
            \<and> (\<forall>j < i. Task_Name (Configuration_Task c ! j) \<noteq> name)))
   \<and> (FindScript c name = None \<longleftrightarrow> (\<forall>s \<in> set (Configuration_Script c). Script_Name s \<noteq> name))
   \<and> (\<forall>s. FindScript c name = Some s \<longleftrightarrow>
         (\<exists>i < length (Configuration_Script c). Configuration_Script c ! i = s \<and> Script_Name s = name
            \<and> (\<forall>j < i. Script_Name (Configuration_Script c ! j) \<noteq> name)))"
  unfolding FindTask_def FindScript_def FindTask_loop_find FindScript_loop_find
  by (auto simp: find_None_iff find_Some_iff)

theorem FindTask_FindScript_first_match_witness:
  "FindTask cfg9 ''test''
     = Some \<lparr>Task_Name = ''test'', Task_Path = Some \<lparr>Path_Include = Some [''*''], Path_Exclude = []\<rparr>\<rparr>
   \<and> (\<exists>i < length (Configuration_Task cfg9).
         Configuration_Task cfg9 ! i
           = \<lparr>Task_Name = ''test'', Task_Path = Some \<lparr>Path_Include = Some [''*''], Path_Exclude = []\<rparr>\<rparr>
         \<and> (\<forall>j < i. Task_Name (Configuration_Task cfg9 ! j) \<noteq> ''test''))
   \<and> FindTask cfg9 ''TEST'' = None
   \<and> ''TEST'' \<notin> set (map Task_Name (Configuration_Task cfg9))
   \<and> FindScript cfg9 ''build'' = Some \<lparr>Script_Name = ''build'', Script_Task = [''test'']\<rparr>
   \<and> FindScript cfg9 ''Build'' = None"
proof -
  have a: "FindTask cfg9 ''test''
     = Some \<lparr>Task_Name = ''test'', Task_Path = Some \<lparr>Path_Include = Some [''*''], Path_Exclude = []\<rparr>\<rparr>"
    by (simp add: FindTask_def cfg9_def)
  have b: "FindTask cfg9 ''TEST'' = None"
    by (simp add: FindTask_def cfg9_def)
  have c: "FindScript cfg9 ''build'' = Some \<lparr>Script_Name = ''build'', Script_Task = [''test'']\<rparr>"
    by (simp add: FindScript_def cfg9_def)
  have d: "FindScript cfg9 ''Build'' = None"
    by (simp add: FindScript_def cfg9_def)
  from FindTask_FindScript_first_match [of cfg9 "''test''"] a
  have e: "\<exists>i < length (Configuration_Task cfg9).
         Configuration_Task cfg9 ! i
           = \<lparr>Task_Name = ''test'', Task_Path = Some \<lparr>Path_Include = Some [''*''], Path_Exclude = []\<rparr>\<rparr>
         \<and> (\<forall>j < i. Task_Name (Configuration_Task cfg9 ! j) \<noteq> ''test'')"
    by blast
  from FindTask_FindScript_first_match [of cfg9 "''TEST''"] b
  have f: "''TEST'' \<notin> set (map Task_Name (Configuration_Task cfg9))"
    by auto
  from a b c d e f show ?thesis by blast
qed

subsection \<open>Script references\<close>

lemma Script_Validate_seen_iff: "Script_Validate_seen seenTask task \<longleftrightarrow> task \<in> set seenTask"
  by (induction seenTask) auto

lemma Script_Validate_task_scan:
  "set seenTask = set pre \<Longrightarrow>
   Script_Validate_task c n seenTask rest
     = concat (map (Script_reference_error c n (pre @ rest))
                [length pre..<length pre + length rest])"
proof (induction rest arbitrary: seenTask pre)
  case Nil
  then show ?case by simp
next
  case (Cons task rest)
  let ?seen' = "if Script_Validate_seen seenTask task then seenTask else seenTask @ [task]"
  have s: "set ?seen' = set (pre @ [task])"
    using Cons.prems by (auto simp: Script_Validate_seen_iff)
  have ih: "Script_Validate_task c n ?seen' rest
     = concat (map (Script_reference_error c n (pre @ task # rest))
                [Suc (length pre)..<Suc (length pre) + length rest])"
    using Cons.IH [OF s] by simp
  have here: "Script_reference_error c n (pre @ task # rest) (length pre)
     = (if Script_Validate_seen seenTask task then [ScriptDuplicateTask n task] else [])
       @ (if FindTask c task = None then [ScriptUnknownTask n task] else [])"
    using Cons.prems by (simp add: Script_reference_error_def Script_Validate_seen_iff)
  have upt: "[length pre..<length pre + length (task # rest)]
     = length pre # [Suc (length pre)..<Suc (length pre) + length rest]"
    using upt_conv_Cons [of "length pre" "length pre + length (task # rest)"] by simp
  show ?case
    unfolding upt by (simp add: Let_def ih here)
qed

lemma Script_Validate_task_errors:
  "Script_Validate_task c n [] refs = Script_reference_errors c n refs"
  using Script_Validate_task_scan [of "[]" "[]" c n refs]
  by (simp add: Script_reference_errors_def)

text \<open>
  C3: for a script with a non-empty reference list, the errors of \<^verbatim>\<open>Script.Validate\<close> after
  the missing-name error are, reference by reference and in order, one duplicate error
  when the reference equals an earlier reference of the same script (so one for each
  repeated occurrence) and, independently, one unknown error when the reference does not
  resolve by \<^verbatim>\<open>FindTask\<close>. For the references \<^verbatim>\<open>a\<close>, \<^verbatim>\<open>a\<close> against a configuration with a task
  \<^verbatim>\<open>a\<close> these errors are exactly one duplicate error, and no unknown error.
\<close>

theorem Script_Validate_references:
  "(Script_Task s \<noteq> [] \<longrightarrow>
      snd (Script_Validate addr c s)
        = (if Script_Name s = [] then [ScriptMissingName (Sprintf_pointer addr)] else [])
          @ Script_reference_errors c (Script_Name (fst (Script_Validate addr c s))) (Script_Task s))
   \<and> (Script_Task s = [''a'', ''a''] \<and> FindTask c ''a'' \<noteq> None \<longrightarrow>
      snd (Script_Validate addr c s)
        = (if Script_Name s = [] then [ScriptMissingName (Sprintf_pointer addr)] else [])
          @ [ScriptDuplicateTask (Script_Name (fst (Script_Validate addr c s))) ''a''])"
proof (intro conjI impI)
  assume "Script_Task s \<noteq> []"
  then show "snd (Script_Validate addr c s)
        = (if Script_Name s = [] then [ScriptMissingName (Sprintf_pointer addr)] else [])
          @ Script_reference_errors c (Script_Name (fst (Script_Validate addr c s))) (Script_Task s)"
    by (simp add: Script_Validate_def Let_def Script_Validate_task_errors)
next
  assume a: "Script_Task s = [''a'', ''a''] \<and> FindTask c ''a'' \<noteq> None"
  then obtain t where "FindTask c ''a'' = Some t" by auto
  with a show "snd (Script_Validate addr c s)
        = (if Script_Name s = [] then [ScriptMissingName (Sprintf_pointer addr)] else [])
          @ [ScriptDuplicateTask (Script_Name (fst (Script_Validate addr c s))) ''a'']"
    by (simp add: Script_Validate_def Let_def)
qed

theorem Script_Validate_references_witness:
  "Script_Task script_aa = [''a'', ''a''] \<and> FindTask cfg3 ''a'' \<noteq> None
   \<and> snd (Script_Validate 0 cfg3 script_aa) = [ScriptDuplicateTask ''s'' ''a'']
   \<and> Script_Task script_xax \<noteq> []
   \<and> Script_reference_errors cfg3 ''s'' [''x'', ''a'', ''x'']
       = [ScriptUnknownTask ''s'' ''x'', ScriptDuplicateTask ''s'' ''x'', ScriptUnknownTask ''s'' ''x'']"
proof -
  have h1: "Script_Task script_aa = [''a'', ''a''] \<and> FindTask cfg3 ''a'' \<noteq> None"
    by (simp add: script_aa_def cfg3_def FindTask_def)
  have n1: "Script_Name script_aa = ''s''" "Script_Name (fst (Script_Validate 0 cfg3 script_aa)) = ''s''"
    by (simp_all add: script_aa_def Script_Validate_def Let_def)
  from Script_Validate_references [of script_aa 0 cfg3, THEN conjunct2] h1
  have r1: "snd (Script_Validate 0 cfg3 script_aa) = [ScriptDuplicateTask ''s'' ''a'']"
    by (simp add: n1)
  have h2: "Script_Task script_xax \<noteq> []"
    by (simp add: script_xax_def)
  have n2: "Script_Name script_xax = ''s''" "Script_Name (fst (Script_Validate 0 cfg3 script_xax)) = ''s''"
    "Script_Task script_xax = [''x'', ''a'', ''x'']"
    by (simp_all add: script_xax_def Script_Validate_def Let_def)
  have e2: "snd (Script_Validate 0 cfg3 script_xax)
       = [ScriptUnknownTask ''s'' ''x'', ScriptDuplicateTask ''s'' ''x'', ScriptUnknownTask ''s'' ''x'']"
    by (simp add: script_xax_def Script_Validate_def Let_def cfg3_def FindTask_def)
  from Script_Validate_references [of script_xax 0 cfg3, THEN conjunct1] h2
  have "snd (Script_Validate 0 cfg3 script_xax)
       = Script_reference_errors cfg3 ''s'' [''x'', ''a'', ''x'']"
    by (simp add: n2)
  with e2 have r2: "Script_reference_errors cfg3 ''s'' [''x'', ''a'', ''x'']
       = [ScriptUnknownTask ''s'' ''x'', ScriptDuplicateTask ''s'' ''x'', ScriptUnknownTask ''s'' ''x'']"
    by simp
  from h1 r1 h2 r2 show ?thesis by blast
qed

subsection \<open>Parse definitions\<close>

text \<open>
  C4 as stated fails: a comment definition that specifies a non-empty line marker is not
  accepted when its block marker is present with neither start nor end. \<^verbatim>\<open>Parse.Validate\<close>
  takes the branch \<^verbatim>\<open>p.Comment.Block != nil\<close> whatever the line marker and reports the
  missing start and the missing end.
\<close>

theorem Parse_Validate_line_marker_counterexample:
  "Comment_Line comment_line_empty_block = ''//''
   \<and> Parse_Validate (Some parse_line_empty_block) file_go
       = [FileMissingBlockStart ''go'', FileMissingBlockEnd ''go'']"
  by (simp add: Parse_Validate_def parse_line_empty_block_def comment_line_empty_block_def
      block_empty_def file_go_def)

text \<open>
  C4, amended: \<^verbatim>\<open>Parse.Validate\<close> reports no error for a comment definition with a non-empty
  line marker and no block marker, and none for one whose block marker has a start and
  an end, whatever the line marker. A block marker that is present is checked whatever
  the line marker: with only one of start and end the result is exactly the error for
  the missing one, and with neither it is the two errors, start then end. For a comment
  with an empty line marker and a block marker with a start and no end the result is
  exactly the missing-end error, and that is the only error of \<^verbatim>\<open>File.Validate\<close> for a file
  with types, that parse definition and no modify definition.
\<close>

theorem Parse_Validate_comment:
  "(Parse_Comment p = Some cm \<and> Comment_Line cm \<noteq> [] \<and> Comment_Block cm = None
      \<longrightarrow> Parse_Validate (Some p) f = [])
   \<and> (Parse_Comment p = Some cm \<and> Comment_Block cm = Some b
        \<and> CommentBlock_Start b \<noteq> [] \<and> CommentBlock_End b \<noteq> []
      \<longrightarrow> Parse_Validate (Some p) f = [])
   \<and> (Parse_Comment p = Some cm \<and> Comment_Block cm = Some b
        \<and> CommentBlock_Start b \<noteq> [] \<and> CommentBlock_End b = []
      \<longrightarrow> Parse_Validate (Some p) f = [FileMissingBlockEnd (Join (File_Type f) '','')])
   \<and> (Parse_Comment p = Some cm \<and> Comment_Block cm = Some b
        \<and> CommentBlock_Start b = [] \<and> CommentBlock_End b \<noteq> []
      \<longrightarrow> Parse_Validate (Some p) f = [FileMissingBlockStart (Join (File_Type f) '','')])
   \<and> (Parse_Comment p = Some cm \<and> Comment_Block cm = Some b
        \<and> CommentBlock_Start b = [] \<and> CommentBlock_End b = []
      \<longrightarrow> Parse_Validate (Some p) f
          = [FileMissingBlockStart (Join (File_Type f) '',''),
             FileMissingBlockEnd (Join (File_Type f) '','')])
   \<and> (File_Parse f = Some p \<and> Parse_Comment p = Some cm \<and> Comment_Line cm = []
        \<and> Comment_Block cm = Some b \<and> CommentBlock_Start b \<noteq> [] \<and> CommentBlock_End b = []
        \<and> File_Type f \<noteq> [] \<and> File_Modify f = None
      \<longrightarrow> File_Validate addr f = (f, [FileMissingBlockEnd (Join (File_Type f) '','')]))"
  by (simp add: Parse_Validate_def File_Validate_def Let_def)

theorem Parse_Validate_comment_witness:
  "Parse_Validate (Some parse_start_only) file_start_only = [FileMissingBlockEnd ''go,c'']
   \<and> File_Validate 0 file_start_only = (file_start_only, [FileMissingBlockEnd ''go,c''])"
proof -
  have h: "File_Parse file_start_only = Some parse_start_only
        \<and> Parse_Comment parse_start_only = Some comment_start_only
        \<and> Comment_Line comment_start_only = []
        \<and> Comment_Block comment_start_only = Some block_start_only
        \<and> CommentBlock_Start block_start_only \<noteq> [] \<and> CommentBlock_End block_start_only = []
        \<and> File_Type file_start_only \<noteq> [] \<and> File_Modify file_start_only = None"
    by (simp add: file_start_only_def parse_start_only_def comment_start_only_def
        block_start_only_def)
  have j: "Join (File_Type file_start_only) '','' = ''go,c''"
    by (simp add: file_start_only_def)
  from Parse_Validate_comment
    [of parse_start_only comment_start_only file_start_only block_start_only 0] h
  show ?thesis by (simp add: j)
qed

subsection \<open>Include patterns\<close>

text \<open>
  A task whose include list is \<^verbatim>\<open>nil\<close>, or has entries all of which are blank, gets an error.
\<close>

lemma Task_Validate_include_all_blank:
  "xs \<noteq> [] \<Longrightarrow> \<forall>x \<in> set xs. TrimSpace x = [] \<Longrightarrow> Task_Validate_include n i xs \<noteq> []"
  by (cases xs) simp_all

lemma Task_Validate_include_missing:
  assumes "Task_Path t = Some p"
    and "Path_Include p = None \<or> (\<exists>xs. Path_Include p = Some xs \<and> xs \<noteq> []
           \<and> (\<forall>x \<in> set xs. TrimSpace x = []))"
  shows "snd (Task_Validate addr t) \<noteq> []"
  using assms
  by (auto simp: Task_Validate_def Let_def Task_Validate_include_all_blank)


subsection \<open>Evaluation\<close>

lemma TrimSpace_star: "TrimSpace ''*'' = [42]"
  by code_simp

lemma Sprintf_pointer_heap0:
  "Sprintf_pointer (heap0 0) = ''0xc000000000''"
  "Sprintf_pointer (heap0 (Suc (Suc 0))) = ''0xc000000010''"
  "Sprintf_pointer (heap0 (Suc (Suc (Suc 0)))) = ''0xc000000018''"
  by (simp_all add: heap0_def Sprintf_pointer_def hexDigits.simps)

lemmas Validate_defs =
  Configuration_Validate_def ValidateTaskDefinitionExists_def ValidateFileDefinitionExists_def
  Task_Validate_def File_Validate_def Parse_Validate_def Script_Validate_def FindTask_def Let_def

text \<open>
  C6: the configuration with the one task \<^verbatim>\<open>t\<close> including \<^verbatim>\<open>*\<close>, the one file of type
  \<^verbatim>\<open>go\<close> with the line comment \<^verbatim>\<open>//\<close> and the one script \<^verbatim>\<open>s\<close> running \<^verbatim>\<open>t\<close> validates
  with no error, and is left as it was, whatever the addresses.
\<close>

theorem Configuration_Validate_end_to_end: "Configuration_Validate alloc cfg6 = (cfg6, [])"
  by (simp add: Validate_defs cfg6_def file_go_def TrimSpace_star)

subsection \<open>Load\<close>

lemma Load_result:
  "os_Open ConfigFile = Inr jsonFile \<Longrightarrow> ioutil_ReadAll jsonFile = (byteValue, None) \<Longrightarrow>
   snd (Load os_Open ioutil_ReadAll json_Unmarshal c) = None"
  by (simp add: Load_def case_prod_unfold)

text \<open>
  C2: \<^verbatim>\<open>Load\<close> of a document that opens and reads but is not well-formed must return the
  parse error. \<^verbatim>\<open>Load\<close> returns its variable \<^verbatim>\<open>err\<close>, which holds the \<^verbatim>\<open>nil\<close> result of
  \<^verbatim>\<open>ioutil.ReadAll\<close>: for the document \<^verbatim>\<open>{\<close>, on which \<^verbatim>\<open>json.Unmarshal\<close> fails, \<^verbatim>\<open>Load\<close>
  returns no error.
\<close>

theorem Load_unmarshal_error_dropped:
  "snd (Unmarshal_brace ''{'' cfg3) = Some ''unexpected end of JSON input''
   \<and> Load os_Open_ok ReadAll_brace Unmarshal_brace cfg3 = (cfg3, None)"
  by (simp add: Load_def os_Open_ok_def ReadAll_brace_def Unmarshal_brace_def)

subsection \<open>Validating again\<close>

subsubsection \<open>Tasks\<close>

lemma Task_Validate_fst:
  "fst (Task_Validate addr t)
     = (if Task_Name t = [] then t\<lparr>Task_Name := Sprintf_pointer addr\<rparr> else t)"
  by (simp add: Task_Validate_def Let_def)

lemma Task_Validate_name_nonempty: "Task_Name (fst (Task_Validate addr t)) \<noteq> []"
  by (simp add: Task_Validate_fst Sprintf_pointer_nonempty)

lemma named_Task_Validate_include: "named (Task_Validate_include n i xs) = Task_Validate_include n i xs"
  by (induction xs arbitrary: i) (simp_all add: named_simps)

lemma named_Task_Validate_exclude: "named (Task_Validate_exclude n i xs) = Task_Validate_exclude n i xs"
  by (induction xs arbitrary: i) (simp_all add: named_simps)

lemma Task_Validate_again:
  "Task_Validate addr' (fst (Task_Validate addr t))
     = (fst (Task_Validate addr t), named (snd (Task_Validate addr t)))"
proof (cases "Task_Name t = []")
  case True
  then show ?thesis
    by (simp add: Task_Validate_def Let_def Sprintf_pointer_nonempty named_simps
        named_Task_Validate_include named_Task_Validate_exclude split: option.splits)
next
  case False
  then show ?thesis
    by (simp add: Task_Validate_def Let_def named_simps
        named_Task_Validate_include named_Task_Validate_exclude split: option.splits)
qed

lemma Validate_tasks_length: "length (fst (Validate_tasks alloc k ts)) = length ts"
  by (induction ts arbitrary: k) (simp_all add: case_prod_unfold Let_def)

lemma Validate_tasks_names: "\<forall>t \<in> set (fst (Validate_tasks alloc k ts)). Task_Name t \<noteq> []"
  by (induction ts arbitrary: k) (simp_all add: case_prod_unfold Let_def Task_Validate_name_nonempty)

lemma Validate_tasks_again:
  "Validate_tasks alloc' k' (fst (Validate_tasks alloc k ts))
     = (fst (Validate_tasks alloc k ts), named (snd (Validate_tasks alloc k ts)))"
  by (induction ts arbitrary: k k')
    (simp_all add: case_prod_unfold Let_def Task_Validate_again named_simps)

subsubsection \<open>Files\<close>

lemma File_Validate_fst:
  "fst (File_Validate addr f)
     = (if File_Type f = [] then f\<lparr>File_Type := [Sprintf_pointer addr]\<rparr> else f)"
  by (simp add: File_Validate_def Let_def)

lemma named_Parse_Validate: "named (Parse_Validate p f) = Parse_Validate p f"
  by (simp add: Parse_Validate_def named_simps split: option.splits)

lemma named_File_Validate_plugin: "named (File_Validate_plugin ty i ps) = File_Validate_plugin ty i ps"
  by (induction ps arbitrary: i) (simp_all add: named_simps)

lemma named_File_Validate_regex: "named (File_Validate_regex ty i rs) = File_Validate_regex ty i rs"
  by (induction rs arbitrary: i) (simp_all add: named_simps)

lemma File_Validate_again:
  "File_Validate addr' (fst (File_Validate addr f))
     = (fst (File_Validate addr f), named (snd (File_Validate addr f)))"
  by (cases "File_Type f = []")
    (simp_all add: File_Validate_def Let_def named_simps named_Parse_Validate
      named_File_Validate_plugin named_File_Validate_regex split: option.splits)

lemma Validate_files_length: "length (fst (Validate_files alloc k fs)) = length fs"
  by (induction fs arbitrary: k) (simp_all add: case_prod_unfold Let_def)

lemma Validate_files_again:
  "Validate_files alloc' k' (fst (Validate_files alloc k fs))
     = (fst (Validate_files alloc k fs), named (snd (Validate_files alloc k fs)))"
  by (induction fs arbitrary: k k')
    (simp_all add: case_prod_unfold Let_def File_Validate_again named_simps)

subsubsection \<open>Scripts\<close>

lemma Script_Validate_fst:
  "fst (Script_Validate addr c s)
     = (if Script_Name s = [] then s\<lparr>Script_Name := Sprintf_pointer addr\<rparr> else s)"
  by (simp add: Script_Validate_def Let_def)

lemma Script_Validate_task_cong:
  "Configuration_Task c' = Configuration_Task c \<Longrightarrow>
   Script_Validate_task c' n seenTask refs = Script_Validate_task c n seenTask refs"
  by (induction refs arbitrary: seenTask) (simp_all add: Let_def FindTask_def)

lemma named_Script_Validate_task:
  "named (Script_Validate_task c n seenTask refs) = Script_Validate_task c n seenTask refs"
  by (induction refs arbitrary: seenTask) (simp_all add: Let_def named_simps)

lemma Script_Validate_again:
  "Configuration_Task c' = Configuration_Task c \<Longrightarrow>
   Script_Validate addr' c' (fst (Script_Validate addr c s))
     = (fst (Script_Validate addr c s), named (snd (Script_Validate addr c s)))"
proof -
  assume "Configuration_Task c' = Configuration_Task c"
  then have eq: "Script_Validate_task c' n seenTask refs = Script_Validate_task c n seenTask refs"
    for n seenTask refs
    by (rule Script_Validate_task_cong)
  show ?thesis
    by (cases "Script_Name s = []")
      (simp_all add: Script_Validate_def Let_def named_simps Sprintf_pointer_nonempty
        named_Script_Validate_task eq)
qed

lemma Validate_scripts_length: "length (fst (Validate_scripts alloc k c ss)) = length ss"
  by (induction ss arbitrary: k) (simp_all add: case_prod_unfold Let_def)

lemma Validate_scripts_again:
  "Configuration_Task c' = Configuration_Task c \<Longrightarrow>
   Validate_scripts alloc' k' c' (fst (Validate_scripts alloc k c ss))
     = (fst (Validate_scripts alloc k c ss), named (snd (Validate_scripts alloc k c ss)))"
  by (induction ss arbitrary: k k')
    (simp_all add: case_prod_unfold Let_def Script_Validate_again named_simps)

subsubsection \<open>The configuration\<close>

lemma Configuration_Validate_fst:
  "fst (Configuration_Validate alloc c)
     = c\<lparr>Configuration_Task := fst (Validate_tasks alloc 0 (Configuration_Task c)),
         Configuration_File :=
           fst (Validate_files alloc (length (Configuration_Task c)) (Configuration_File c)),
         Configuration_Script :=
           fst (Validate_scripts alloc
                  (length (Configuration_Task c) + length (Configuration_File c))
                  (c\<lparr>Configuration_Task := fst (Validate_tasks alloc 0 (Configuration_Task c)),
                      Configuration_File :=
                        fst (Validate_files alloc (length (Configuration_Task c))
                               (Configuration_File c))\<rparr>)
                  (Configuration_Script c))\<rparr>"
  by (simp add: Configuration_Validate_def Let_def case_prod_unfold
      Validate_tasks_length Validate_files_length)

lemma Configuration_Validate_snd:
  "snd (Configuration_Validate alloc c)
     = (if Configuration_Task c = [] then [MissingTaskDefinition] else [])
       @ (if Configuration_File c = [] then [MissingFileDefinition] else [])
       @ snd (Validate_tasks alloc 0 (Configuration_Task c))
       @ snd (Validate_files alloc (length (Configuration_Task c)) (Configuration_File c))
       @ snd (Validate_scripts alloc
                  (length (Configuration_Task c) + length (Configuration_File c))
                  (c\<lparr>Configuration_Task := fst (Validate_tasks alloc 0 (Configuration_Task c)),
                      Configuration_File :=
                        fst (Validate_files alloc (length (Configuration_Task c))
                               (Configuration_File c))\<rparr>)
                  (Configuration_Script c))"
  by (simp add: Configuration_Validate_def Let_def case_prod_unfold
      ValidateTaskDefinitionExists_def ValidateFileDefinitionExists_def
      Validate_tasks_length Validate_files_length)

lemma length_0_fst_Validate_tasks:
  "fst (Validate_tasks alloc k ts) = [] \<longleftrightarrow> ts = []"
  using Validate_tasks_length [of alloc k ts] by (metis length_0_conv)

lemma length_0_fst_Validate_files:
  "fst (Validate_files alloc k fs) = [] \<longleftrightarrow> fs = []"
  using Validate_files_length [of alloc k fs] by (metis length_0_conv)

lemma Configuration_Validate_cfg1:
  "Configuration_Validate heap0 cfg1
     = (cfg1\<lparr>Configuration_Task :=
               [\<lparr>Task_Name = ''0xc000000000'',
                 Task_Path = Some \<lparr>Path_Include = Some [''*''], Path_Exclude = []\<rparr>\<rparr>]\<rparr>,
        [TaskMissingName ''0xc000000000''])"
  by (simp add: Validate_defs cfg1_def file_go_def TrimSpace_star Sprintf_pointer_heap0)

lemma Configuration_Validate_cfg1_again:
  "Configuration_Validate heap0
     (cfg1\<lparr>Configuration_Task :=
               [\<lparr>Task_Name = ''0xc000000000'',
                 Task_Path = Some \<lparr>Path_Include = Some [''*''], Path_Exclude = []\<rparr>\<rparr>]\<rparr>)
     = (cfg1\<lparr>Configuration_Task :=
               [\<lparr>Task_Name = ''0xc000000000'',
                 Task_Path = Some \<lparr>Path_Include = Some [''*''], Path_Exclude = []\<rparr>\<rparr>]\<rparr>, [])"
  by (simp add: Validate_defs cfg1_def file_go_def TrimSpace_star)

text \<open>
  C1 as stated fails: the first validation of \<open>cfg1\<close>, whose task is anonymous, reports
  the missing name and assigns the placeholder; the second validation finds a name and
  reports nothing.
\<close>

theorem Configuration_Validate_twice_counterexample:
  "snd (Configuration_Validate heap0 cfg1) = [TaskMissingName ''0xc000000000'']
   \<and> snd (Configuration_Validate heap0 (fst (Configuration_Validate heap0 cfg1))) = []"
  by (simp add: Configuration_Validate_cfg1 Configuration_Validate_cfg1_again)

text \<open>
  C1, amended: a second validation, under any addresses, leaves the configuration as the
  first validation left it, every entity keeping the placeholder it was given, and
  reports the errors of the first validation without the missing-name and missing-type
  errors, in the same order and with the same content. So two validations in succession
  report the same errors exactly when the first reports no missing identifier.
\<close>

theorem Configuration_Validate_again:
  "Configuration_Validate alloc' (fst (Configuration_Validate alloc c))
     = (fst (Configuration_Validate alloc c),
        filter (\<lambda>e. \<not> missing_identifier e) (snd (Configuration_Validate alloc c)))"
proof -
  let ?c1 = "fst (Configuration_Validate alloc c)"
  have f: "fst (Configuration_Validate alloc' ?c1) = ?c1"
    by (subst Configuration_Validate_fst [of alloc' ?c1])
      (simp add: Configuration_Validate_fst [of alloc c] Validate_tasks_again
        Validate_files_again Validate_scripts_again)
  have s: "snd (Configuration_Validate alloc' ?c1) = named (snd (Configuration_Validate alloc c))"
    by (subst Configuration_Validate_snd [of alloc' ?c1])
      (simp add: Configuration_Validate_fst [of alloc c] Configuration_Validate_snd [of alloc c]
        Validate_tasks_again Validate_files_again Validate_scripts_again named_simps
        length_0_fst_Validate_tasks length_0_fst_Validate_files)
  show ?thesis
    using f s by (simp add: prod_eq_iff named_def)
qed

lemma Configuration_Validate_cfg7:
  "Configuration_Validate heap0 cfg7
     = (cfg7',
        [TaskMissingName ''0xc000000000'', TaskMissingPath ''0xc000000000'',
         FileMissingType ''0xc000000010'', FileMissingParse ''0xc000000010'',
         ScriptMissingName ''0xc000000018'', ScriptUnknownTask ''0xc000000018'' []])"
  by (simp add: Validate_defs cfg7_def cfg7'_def TrimSpace_star Sprintf_pointer_heap0)

theorem Configuration_Validate_again_witness:
  "Configuration_Validate heap0 cfg7'
     = (cfg7',
        [TaskMissingPath ''0xc000000000'', FileMissingParse ''0xc000000010'',
         ScriptUnknownTask ''0xc000000018'' []])"
  using Configuration_Validate_again [of heap0 heap0 cfg7]
  by (simp add: Configuration_Validate_cfg7)

subsection \<open>What validation changes\<close>

lemma Validate_tasks_frame: "list_all2 Task_frame ts (fst (Validate_tasks alloc k ts))"
  by (induction ts arbitrary: k)
    (simp_all add: case_prod_unfold Let_def Task_Validate_fst Task_frame_def)

lemma Validate_files_frame: "list_all2 File_frame fs (fst (Validate_files alloc k fs))"
  by (induction fs arbitrary: k)
    (simp_all add: case_prod_unfold Let_def File_Validate_fst File_frame_def)

lemma Validate_scripts_frame: "list_all2 Script_frame ss (fst (Validate_scripts alloc k c ss))"
  by (induction ss arbitrary: k)
    (simp_all add: case_prod_unfold Let_def Script_Validate_fst Script_frame_def)

text \<open>
  C7: validation changes nothing but the name of a task or script whose name was empty
  and the types of a file that had none. The metadata, every non-empty name, every path,
  parse and modify definition, every reference list, and the length and order of the
  three sequences are the same afterwards.
\<close>

theorem Configuration_Validate_frame:
  "Configuration_frame c (fst (Configuration_Validate alloc c))"
  by (simp add: Configuration_frame_def Configuration_Validate_fst
      Validate_tasks_frame Validate_files_frame Validate_scripts_frame)

theorem Configuration_Validate_frame_witness:
  "Configuration_Name cfg7' = ''emits'' \<and> Configuration_License cfg7' = ''MIT''
   \<and> Configuration_frame cfg7 cfg7'
   \<and> Task_Name (Configuration_Task cfg7' ! 1) = ''t''
   \<and> Task_Path (Configuration_Task cfg7' ! 1) = Task_Path (Configuration_Task cfg7 ! 1)
   \<and> length (Configuration_Task cfg7') = 2"
  using Configuration_Validate_frame [of cfg7 heap0]
  by (simp add: Configuration_Validate_cfg7) (simp add: cfg7'_def cfg7_def)

subsection \<open>Empty references\<close>

lemma FindTask_loop_empty_name:
  "\<forall>t \<in> set ts. Task_Name t \<noteq> [] \<Longrightarrow> FindTask_loop ts [] = None"
  by (induction ts) simp_all

lemma FindTask_validated_empty: "FindTask (fst (Configuration_Validate alloc c)) [] = None"
  by (simp add: FindTask_def Configuration_Validate_fst FindTask_loop_empty_name
      Validate_tasks_names)

lemma Script_Validate_task_unknown:
  "FindTask c r = None \<Longrightarrow> r \<in> set refs \<Longrightarrow>
   ScriptUnknownTask n r \<in> set (Script_Validate_task c n seenTask refs)"
  by (induction refs arbitrary: seenTask) (auto simp: Let_def)

lemma Script_Validate_unknown:
  "FindTask c r = None \<Longrightarrow> r \<in> set (Script_Task s) \<Longrightarrow>
   ScriptUnknownTask (Script_Name (fst (Script_Validate addr c s))) r
     \<in> set (snd (Script_Validate addr c s))"
  by (cases "Script_Task s = []")
    (auto simp: Script_Validate_def Let_def Script_Validate_task_unknown)

lemma Validate_scripts_nth:
  "i < length ss \<Longrightarrow>
   fst (Validate_scripts alloc k c ss) ! i = fst (Script_Validate (alloc (k + i)) c (ss ! i))
   \<and> set (snd (Script_Validate (alloc (k + i)) c (ss ! i)))
       \<subseteq> set (snd (Validate_scripts alloc k c ss))"
proof (induction ss arbitrary: k i)
  case Nil
  then show ?case by simp
next
  case (Cons s ss)
  show ?case
  proof (cases i)
    case 0
    then show ?thesis by (simp add: case_prod_unfold Let_def)
  next
    case (Suc j)
    with Cons.prems have "j < length ss" by simp
    from Cons.IH [OF this, of "Suc k"] Suc show ?thesis
      by (auto simp: case_prod_unfold Let_def)
  qed
qed

text \<open>
  C10: the tasks are validated before the scripts and every task has a non-empty name
  afterwards, so the empty name never resolves during the validation of the scripts:
  for every script that refers to the empty name, whether or not a task was anonymous,
  \<^verbatim>\<open>Validate\<close> reports that reference as unknown, under the name the script has after
  validation.
\<close>

theorem Configuration_Validate_empty_reference:
  "i < length (Configuration_Script c) \<and> [] \<in> set (Script_Task (Configuration_Script c ! i))
   \<longrightarrow> FindTask (fst (Configuration_Validate alloc c)) [] = None
       \<and> ScriptUnknownTask
            (Script_Name (Configuration_Script (fst (Configuration_Validate alloc c)) ! i)) []
          \<in> set (snd (Configuration_Validate alloc c))"
proof (intro impI conjI)
  show "FindTask (fst (Configuration_Validate alloc c)) [] = None"
    by (rule FindTask_validated_empty)
next
  assume a: "i < length (Configuration_Script c)
             \<and> [] \<in> set (Script_Task (Configuration_Script c ! i))"
  let ?k = "length (Configuration_Task c) + length (Configuration_File c)"
  let ?c2 = "c\<lparr>Configuration_Task := fst (Validate_tasks alloc 0 (Configuration_Task c)),
                Configuration_File :=
                  fst (Validate_files alloc (length (Configuration_Task c))
                         (Configuration_File c))\<rparr>"
  have none: "FindTask ?c2 [] = None"
    by (simp add: FindTask_def FindTask_loop_empty_name Validate_tasks_names)
  from a have i: "i < length (Configuration_Script c)"
    and r: "[] \<in> set (Script_Task (Configuration_Script c ! i))" by simp_all
  from Validate_scripts_nth [OF i, of alloc ?k ?c2]
  have nth: "fst (Validate_scripts alloc ?k ?c2 (Configuration_Script c)) ! i
               = fst (Script_Validate (alloc (?k + i)) ?c2 (Configuration_Script c ! i))"
    and sub: "set (snd (Script_Validate (alloc (?k + i)) ?c2 (Configuration_Script c ! i)))
               \<subseteq> set (snd (Validate_scripts alloc ?k ?c2 (Configuration_Script c)))"
    by simp_all
  from Script_Validate_unknown [OF none r, of "alloc (?k + i)"] sub
  have "ScriptUnknownTask
          (Script_Name (fst (Script_Validate (alloc (?k + i)) ?c2 (Configuration_Script c ! i)))) []
        \<in> set (snd (Validate_scripts alloc ?k ?c2 (Configuration_Script c)))"
    by blast
  then show "ScriptUnknownTask
            (Script_Name (Configuration_Script (fst (Configuration_Validate alloc c)) ! i)) []
          \<in> set (snd (Configuration_Validate alloc c))"
    by (simp add: Configuration_Validate_fst Configuration_Validate_snd nth)
qed

theorem Configuration_Validate_empty_reference_witness:
  "0 < length (Configuration_Script cfg7) \<and> [] \<in> set (Script_Task (Configuration_Script cfg7 ! 0))
   \<and> FindTask cfg7' [] = None
   \<and> ScriptUnknownTask ''0xc000000018'' [] \<in> set (snd (Configuration_Validate heap0 cfg7))"
proof -
  have h: "0 < length (Configuration_Script cfg7)
           \<and> [] \<in> set (Script_Task (Configuration_Script cfg7 ! 0))"
    by (simp add: cfg7_def)
  have n: "Script_Name (Configuration_Script cfg7' ! 0) = ''0xc000000018''"
    by (simp add: cfg7'_def)
  from Configuration_Validate_empty_reference [of 0 cfg7 heap0] h
  have "FindTask (fst (Configuration_Validate heap0 cfg7)) [] = None
       \<and> ScriptUnknownTask
            (Script_Name (Configuration_Script (fst (Configuration_Validate heap0 cfg7)) ! 0)) []
          \<in> set (snd (Configuration_Validate heap0 cfg7))"
    by blast
  then have "FindTask cfg7' [] = None
       \<and> ScriptUnknownTask ''0xc000000018'' [] \<in> set (snd (Configuration_Validate heap0 cfg7))"
    by (simp only: Configuration_Validate_cfg7 fst_conv n)
  with h show ?thesis by blast
qed

end
